theory Spec2Isabelle
  imports Main "HOL-Library.Code_Target_Numeral"
begin

section \<open>JavaScript values\<close>

text \<open>
  The values that reach \<^verbatim>\<open>Command\<close> (src/modules/commands/command.js): a command
  descriptor, the content of a response, the \<^verbatim>\<open>secret\<close> argument. They are the
  JSON-shaped values of JavaScript together with \<^verbatim>\<open>undefined\<close>. \<open>JNum n\<close> is the
  number of integer value \<open>n\<close>, for the integers that are numbers: those of at most 53
  significant binary digits, below \<open>2 ^ 1024\<close>. An object is the list of its own
  properties in insertion order, with \<^verbatim>\<open>Object.prototype\<close> as its prototype.
\<close>

datatype jsval =
    JUndefined
  | JNull
  | JBool bool
  | JNum int
  | JStr string
  | JArr "jsval list"
  | JObj "(string \<times> jsval) list"

text \<open>What a \<^verbatim>\<open>throw\<close> carries: a \<^verbatim>\<open>TypeError\<close> with its message, or any other value.\<close>

datatype js_error = TypeError string | Thrown jsval

text \<open>The operator \<^verbatim>\<open>typeof\<close>. For \<^verbatim>\<open>null\<close> it answers \<^verbatim>\<open>'object'\<close>.\<close>

fun typeof :: "jsval \<Rightarrow> string" where
  "typeof JUndefined = ''undefined''"
| "typeof JNull = ''object''"
| "typeof (JBool b) = ''boolean''"
| "typeof (JNum n) = ''number''"
| "typeof (JStr s) = ''string''"
| "typeof (JArr xs) = ''object''"
| "typeof (JObj fs) = ''object''"

text \<open>Truthiness, as \<^verbatim>\<open>!x\<close> and \<^verbatim>\<open>x ? a : b\<close> read it.\<close>

fun truthy :: "jsval \<Rightarrow> bool" where
  "truthy JUndefined = False"
| "truthy JNull = False"
| "truthy (JBool b) = b"
| "truthy (JNum n) = (n \<noteq> 0)"
| "truthy (JStr s) = (s \<noteq> [])"
| "truthy (JArr xs) = True"
| "truthy (JObj fs) = True"

text \<open>A value that really is an object: an object or an array, not \<^verbatim>\<open>null\<close>.\<close>

fun object_shaped :: "jsval \<Rightarrow> bool" where
  "object_shaped (JArr xs) = True"
| "object_shaped (JObj fs) = True"
| "object_shaped v = False"

text \<open>
  Reading a named property \<^verbatim>\<open>v.k\<close>, for the property names the constructor reads
  (\<^verbatim>\<open>name\<close>, \<^verbatim>\<open>description\<close>, \<^verbatim>\<open>staff_only\<close>, \<^verbatim>\<open>permissions\<close>, \<^verbatim>\<open>options\<close>,
  \<^verbatim>\<open>internal\<close>), none of which a prototype defines: an object answers its own property
  or \<^verbatim>\<open>undefined\<close>, every other value but \<^verbatim>\<open>null\<close> and \<^verbatim>\<open>undefined\<close> answers
  \<^verbatim>\<open>undefined\<close>, and \<^verbatim>\<open>null\<close> and \<^verbatim>\<open>undefined\<close> throw a \<^verbatim>\<open>TypeError\<close>.
\<close>

definition cannot_read :: "string \<Rightarrow> string \<Rightarrow> string" where
  "cannot_read what k =
     ''Cannot read properties of '' @ what @ '' (reading '' @ [CHR 0x27] @ k @ [CHR 0x27] @ '')''"

fun get_prop :: "jsval \<Rightarrow> string \<Rightarrow> js_error + jsval" where
  "get_prop JUndefined k = Inl (TypeError (cannot_read ''undefined'' k))"
| "get_prop JNull k = Inl (TypeError (cannot_read ''null'' k))"
| "get_prop (JObj fs) k = Inr (case map_of fs k of Some v \<Rightarrow> v | None \<Rightarrow> JUndefined)"
| "get_prop v k = Inr JUndefined"

text \<open>
  How an arm that may throw is continued: the first error thrown is the error of the
  whole.
\<close>

definition bind_err :: "js_error + 'a \<Rightarrow> ('a \<Rightarrow> js_error + 'b) \<Rightarrow> js_error + 'b" where
  "bind_err r f = (case r of Inl e \<Rightarrow> Inl e | Inr x \<Rightarrow> f x)"

fun first_error :: "(js_error + 'a) list \<Rightarrow> js_error + 'a list" where
  "first_error [] = Inr []"
| "first_error (Inl e # rs) = Inl e"
| "first_error (Inr x # rs) = bind_err (first_error rs) (\<lambda>xs. Inr (x # xs))"

text \<open>Decimal digits of a natural number.\<close>

fun show_nat :: "nat \<Rightarrow> string" where
  "show_nat n =
     (if n < 10 then [''0123456789'' ! n]
      else show_nat (n div 10) @ [''0123456789'' ! (n mod 10)])"

fun bit_length :: "nat \<Rightarrow> nat" where
  "bit_length n = (if n = 0 then 0 else Suc (bit_length (n div 2)))"

text \<open>
  The digits JavaScript prints for a number are those of the shortest decimal that
  reads back as the same number, the closest one when several are as short. Below
  \<open>2 ^ 53\<close> that decimal is the integer itself. From there on the numbers are \<open>u\<close>
  apart, \<open>u = 2 ^ (e2 - 52)\<close> for a number of \<open>e2 + 1\<close> binary digits, and the
  decimals that read back as \<open>n\<close> lie between the midpoints to its two neighbours,
  the midpoints included when the significand \<open>n div u\<close> is even; below a power of
  two the neighbour is at half the distance. The bounds are kept multiplied by 4.
  \<open>shortest_from\<close> tries the multiples of \<open>10 ^ j\<close> next to \<open>n\<close>, for \<open>j\<close>
  going down, so for more and more digits.
\<close>

primrec shortest_from :: "nat \<Rightarrow> nat \<Rightarrow> nat \<Rightarrow> bool \<Rightarrow> nat \<Rightarrow> nat" where
  "shortest_from n lo4 hi4 incl 0 = n"
| "shortest_from n lo4 hi4 incl (Suc j) =
     (let p = 10 ^ Suc j; a = (n div p) * p; b = a + p;
          a_ok = (if incl then lo4 \<le> 4 * a else lo4 < 4 * a);
          b_ok = (if incl then 4 * b \<le> hi4 else 4 * b < hi4)
      in if a_ok \<and> b_ok
         then (if n - a < b - n then a
               else if b - n < n - a then b
               else if even (n div p) then a else b)
         else if a_ok then a
         else if b_ok then b
         else shortest_from n lo4 hi4 incl j)"

definition shortest_value :: "nat \<Rightarrow> nat" where
  "shortest_value n =
     (if n < 2 ^ 53 then n
      else
        (let e2 = bit_length n - 1; u = 2 ^ (e2 - 52);
             lo4 = 4 * n - (if n = 2 ^ e2 then u else 2 * u);
             hi4 = 4 * n + 2 * u
         in shortest_from n lo4 hi4 (even (n div u)) (length (show_nat n) - 1)))"

text \<open>
  \<^verbatim>\<open>Number.prototype.toString\<close> on a number of integer value: the digits in full below
  \<open>10 ^ 21\<close>, the exponent form from there on.
\<close>

definition show_number :: "nat \<Rightarrow> string" where
  "show_number n =
     (let v = shortest_value n; ds = show_nat v
      in if v < 10 ^ 21 then ds
         else
           (case rev (dropWhile (\<lambda>c. c = CHR ''0'') (rev ds)) of
              [] \<Rightarrow> []
            | c # rest \<Rightarrow> c # (if rest = [] then [] else ''.'' @ rest))
           @ ''e+'' @ show_nat (length ds - 1))"

definition number_to_string :: "int \<Rightarrow> string" where
  "number_to_string i =
     (if i < 0 then ''-'' @ show_number (nat (- i)) else show_number (nat i))"

fun join_with :: "string \<Rightarrow> string list \<Rightarrow> string" where
  "join_with sep [] = []"
| "join_with sep [s] = s"
| "join_with sep (s # t # ss) = s @ sep @ join_with sep (t # ss)"

text \<open>
  String conversion, as a template literal applies it. It can throw. An array joins
  the conversions of its elements with commas, \<^verbatim>\<open>null\<close> and \<^verbatim>\<open>undefined\<close> elements
  being empty, and throws what the first failing element throws. An object is
  converted by its \<^verbatim>\<open>toString\<close>: without an own property of that name it inherits the
  one of \<^verbatim>\<open>Object.prototype\<close> and is \<^verbatim>\<open>[object Object]\<close>; with one, whose value is
  no function (no value here is), neither it nor \<^verbatim>\<open>valueOf\<close> gives a primitive, and
  the conversion throws a \<^verbatim>\<open>TypeError\<close>.
\<close>

fun to_string :: "jsval \<Rightarrow> js_error + string" where
  "to_string JUndefined = Inr ''undefined''"
| "to_string JNull = Inr ''null''"
| "to_string (JBool b) = Inr (if b then ''true'' else ''false'')"
| "to_string (JNum n) = Inr (number_to_string n)"
| "to_string (JStr s) = Inr s"
| "to_string (JArr xs) =
     bind_err
       (first_error
          (map (\<lambda>x. if x = JUndefined \<or> x = JNull then Inr [] else to_string x) xs))
       (\<lambda>ss. Inr (join_with '','' ss))"
| "to_string (JObj fs) =
     (if map_of fs ''toString'' = None then Inr ''[object Object]''
      else Inl (TypeError ''Cannot convert object to primitive value''))"

section \<open>The collaborators of a command\<close>

text \<open>
  A plugin, as the constructor reads it: \<^verbatim>\<open>p.commands\<close> is an array of command
  names or is missing (the code reads it with \<^verbatim>\<open>?.\<close>).
\<close>

record plugin =
  plugin_name :: string
  commands :: "string list option"

text \<open>
  The property \<^verbatim>\<open>this.plugin\<close>: never assigned, or assigned the result of
  \<^verbatim>\<open>Array.prototype.find\<close>, which is a plugin or \<^verbatim>\<open>undefined\<close>.
\<close>

datatype plugin_field = Unset | Assigned "plugin option"

text \<open>
  The instance under construction. \<^verbatim>\<open>this.client\<close> and \<^verbatim>\<open>this.manager\<close> are the
  client below and are passed beside the instance.
\<close>

record command =
  name :: jsval
  description :: jsval
  staff_only :: jsval
  permissions :: jsval
  options :: jsval
  internal :: jsval
  plugin :: plugin_field

text \<open>
  The client, as the constructor uses it: \<^verbatim>\<open>client.plugins.plugins\<close>, the two methods
  of the command manager \<^verbatim>\<open>client.commands\<close>, each answering \<open>Some e\<close> when it throws
  \<open>e\<close> and \<open>None\<close> when it returns, and \<^verbatim>\<open>client.user.id\<close>.
\<close>

record client =
  plugins :: "plugin list"
  check :: "jsval \<Rightarrow> js_error option"
  register :: "command \<Rightarrow> js_error option"
  user_id :: jsval

text \<open>
  Every call that leaves the class is an event of a log, in the order of the calls.
  An API route is the list of its segments, as the REST router collects them. The
  logger and the REST router return without throwing, and \<^verbatim>\<open>log.error\<close> returns
  \<^verbatim>\<open>undefined\<close>.
\<close>

datatype event =
    Plugins_find jsval
  | Manager_check jsval
  | Manager_register command
  | Log_error js_error
  | Log_commands string
  | Api_post "jsval list" jsval
  | Api_patch "jsval list" jsval

section \<open>The constructor\<close>

text \<open>Lines 58 to 88: the six properties of the descriptor, read in this order.\<close>

definition read_descriptor :: "jsval \<Rightarrow> js_error + command" where
  "read_descriptor data =
     bind_err (get_prop data ''name'') (\<lambda>n.
     bind_err (get_prop data ''description'') (\<lambda>d.
     bind_err (get_prop data ''staff_only'') (\<lambda>s.
     bind_err (get_prop data ''permissions'') (\<lambda>p.
     bind_err (get_prop data ''options'') (\<lambda>os.
     bind_err (get_prop data ''internal'') (\<lambda>i.
       Inr \<lparr>name = n, description = d, staff_only = s, permissions = p,
            options = os, internal = i, plugin = Unset\<rparr>))))))"

text \<open>
  \<^verbatim>\<open>p.commands?.includes(this.name)\<close>: a missing list gives \<^verbatim>\<open>undefined\<close>, which is
  falsy; a list of strings includes the name when the name is one of its strings.
\<close>

definition plugin_includes :: "plugin \<Rightarrow> jsval \<Rightarrow> bool" where
  "plugin_includes p n =
     (case commands p of
        None \<Rightarrow> False
      | Some cs \<Rightarrow> (case n of JStr s \<Rightarrow> s \<in> set cs | _ \<Rightarrow> False))"

text \<open>Lines 90 to 96.\<close>

definition resolve_plugin :: "client \<Rightarrow> command \<Rightarrow> event list \<Rightarrow> command \<times> event list" where
  "resolve_plugin cl this tr =
     (if \<not> truthy (internal this)
      then (this\<lparr>plugin := Assigned (find (\<lambda>p. plugin_includes p (name this)) (plugins cl))\<rparr>,
            tr @ [Plugins_find (name this)])
      else (this, tr))"

definition commands_route :: "client \<Rightarrow> jsval list" where
  "commands_route cl = [JStr ''applications'', user_id cl, JStr ''commands'']"

text \<open>
  Line 109: the text of the confirmation line. The template literal converts
  \<^verbatim>\<open>this.name\<close> to a string, and throws when that conversion does.
\<close>

definition loaded_message :: "command \<Rightarrow> js_error + string" where
  "loaded_message this =
     (let internal_s = (if truthy (internal this) then ''internal '' else '''')
      in bind_err (to_string (name this)) (\<lambda>n.
           Inr (''Loaded '' @ internal_s @ [CHR 0x22] @ n @ [CHR 0x22] @ '' command'')))"

text \<open>
  \<^verbatim>\<open>new Command(client, data)\<close>, run on the log \<open>tr\<close>: the log afterwards, and the
  error thrown or the instance.
\<close>

definition Command_constructor ::
  "client \<Rightarrow> jsval \<Rightarrow> event list \<Rightarrow> event list \<times> (js_error + command)" where
  "Command_constructor cl data tr =
     (if typeof data \<noteq> ''object''
      then (tr, Inl (TypeError (''Expected type of data to be an object, got '' @ typeof data)))
      else
        case read_descriptor data of
          Inl e \<Rightarrow> (tr, Inl e)
        | Inr this0 \<Rightarrow>
            (case resolve_plugin cl this0 tr of (this, tr1) \<Rightarrow>
              (let tr2 = tr1 @ [Manager_check data] in
               case check cl data of
                 Some e \<Rightarrow> (tr2, Inl e)
               | None \<Rightarrow>
                   (let tr3 = tr2 @ [Manager_register this] in
                    case register cl this of
                      Some e \<Rightarrow> (tr3 @ [Log_error e], Inr this)
                    | None \<Rightarrow>
                        (let tr4 = tr3 @ [Api_post (commands_route cl) (JObj [(''data'', data)])]
                         in case loaded_message this of
                              Inl e \<Rightarrow> (tr4, Inl e)
                            | Inr line \<Rightarrow> (tr4 @ [Log_commands line], Inr this))))))"

section \<open>The response methods\<close>

text \<open>
  The interaction, as the methods read it: \<^verbatim>\<open>interaction.id\<close>, \<^verbatim>\<open>interaction.token\<close>
  and \<^verbatim>\<open>interaction.channel_id\<close>.
\<close>

record interaction =
  interaction_id :: jsval
  token :: jsval
  channel_id :: jsval

text \<open>
  The module \<^verbatim>\<open>utils/discord\<close>, which the file imports and which is not among the
  sources: its two helpers are parameters. \<^verbatim>\<open>createMessage\<close> is asynchronous: it
  answers \<open>Inr m\<close> when its promise resolves to \<open>m\<close>, \<open>Inl e\<close> when it rejects.
\<close>

record utils_discord =
  flags :: "jsval \<Rightarrow> jsval"
  createMessage :: "client \<Rightarrow> jsval \<Rightarrow> jsval \<Rightarrow> js_error + jsval"

definition callback_route :: "interaction \<Rightarrow> jsval list" where
  "callback_route i = [JStr ''interactions'', interaction_id i, token i, JStr ''callback'']"

definition messages_route :: "interaction \<Rightarrow> jsval list" where
  "messages_route i = [JStr ''interactions'', interaction_id i, token i, JStr ''messages'']"

text \<open>
  Each method is asynchronous: beside the log it answers how its promise settles,
  \<open>Inr\<close> the value it resolves to, \<open>Inl\<close> the error it rejects with.
\<close>

definition deferResponse ::
  "utils_discord \<Rightarrow> interaction \<Rightarrow> jsval \<Rightarrow> event list \<Rightarrow> event list \<times> (js_error + jsval)" where
  "deferResponse u i secret tr =
     (tr @ [Api_post (callback_route i)
              (JObj [(''data'', JObj [(''type'', JNum 5), (''flags'', flags u secret)])])],
      Inr JUndefined)"

definition sendResponse ::
  "utils_discord \<Rightarrow> client \<Rightarrow> interaction \<Rightarrow> jsval \<Rightarrow> jsval \<Rightarrow> event list
     \<Rightarrow> event list \<times> (js_error + jsval)" where
  "sendResponse u cl i content secret tr =
     (if typeof content = ''object''
      then
        (let f = flags u secret in
         case createMessage u cl (channel_id i) content of
           Inl e \<Rightarrow> (tr, Inl e)
         | Inr m \<Rightarrow>
             (tr @ [Api_post (callback_route i)
                      (JObj [(''data'', JObj [(''type'', JNum 4), (''flags'', f), (''data'', m)])])],
              Inr JUndefined))
      else
        (tr @ [Api_post (callback_route i)
                 (JObj [(''data'',
                    JObj [(''type'', JNum 4), (''flags'', flags u secret), (''content'', content)])])],
         Inr JUndefined))"

definition editResponse ::
  "interaction \<Rightarrow> jsval \<Rightarrow> event list \<Rightarrow> event list \<times> (js_error + jsval)" where
  "editResponse i content tr =
     (if typeof content = ''object''
      then (tr @ [Api_patch (messages_route i) (JObj [(''embeds'', content)])], Inr JUndefined)
      else (tr @ [Api_patch (messages_route i) (JObj [(''content'', content)])], Inr JUndefined))"

text \<open>
  Modelled from the spec: the helper \<^verbatim>\<open>flags\<close> of \<^verbatim>\<open>utils/discord\<close>, which is not
  among the sources. The spec: a boolean \<^verbatim>\<open>secret\<close> maps to a platform-specific
  bit-flag value, the exact bit being an external contract; with \<^verbatim>\<open>secret\<close> true the
  ephemeral flag is set, with \<^verbatim>\<open>secret\<close> false there is no ephemeral flag. The
  position of the ephemeral bit is the parameter \<open>k\<close>.
\<close>

definition spec_flags :: "nat \<Rightarrow> jsval \<Rightarrow> jsval" where
  "spec_flags k secret = (if truthy secret then JNum (2 ^ k) else JNum 0)"

section \<open>Reading the log\<close>

text \<open>An own property of an object, when it has it.\<close>

fun field :: "jsval \<Rightarrow> string \<Rightarrow> jsval option" where
  "field (JObj fs) k = map_of fs k"
| "field v k = None"

text \<open>
  What a request carries: the \<^verbatim>\<open>data\<close> option of the options handed to \<^verbatim>\<open>post\<close> or
  \<^verbatim>\<open>patch\<close>, as in \<^verbatim>\<open>post({ data })\<close> and \<^verbatim>\<open>post({ data: { type: 5, ... } })\<close>.
\<close>

definition request_body :: "jsval \<Rightarrow> jsval option" where
  "request_body opts = field opts ''data''"

text \<open>A flags value carries the ephemeral flag when bit \<open>k\<close> of it is set.\<close>

fun has_ephemeral :: "nat \<Rightarrow> jsval \<Rightarrow> bool" where
  "has_ephemeral k (JNum n) = bit n k"
| "has_ephemeral k v = False"

fun is_network :: "event \<Rightarrow> bool" where
  "is_network (Api_post r b) = True"
| "is_network (Api_patch r b) = True"
| "is_network ev = False"

fun is_register :: "event \<Rightarrow> bool" where
  "is_register (Manager_register c) = True"
| "is_register ev = False"

fun is_log_error :: "event \<Rightarrow> bool" where
  "is_log_error (Log_error e) = True"
| "is_log_error ev = False"

fun is_log_commands :: "event \<Rightarrow> bool" where
  "is_log_commands (Log_commands s) = True"
| "is_log_commands ev = False"

text \<open>
  The step of the constructor an event belongs to: plugin resolution, validation,
  registration, then the publication or the error log, then the confirmation.
\<close>

fun step :: "event \<Rightarrow> nat" where
  "step (Plugins_find n) = 0"
| "step (Manager_check d) = 1"
| "step (Manager_register c) = 2"
| "step (Log_error e) = 3"
| "step (Api_post r b) = 3"
| "step (Api_patch r b) = 3"
| "step (Log_commands s) = 4"

section \<open>Example inputs\<close>

definition tickets_plugin :: plugin where
  "tickets_plugin = \<lparr>plugin_name = ''tickets'', commands = Some [''new'', ''close'']\<rparr>"

definition accepting_client :: client where
  "accepting_client =
     \<lparr>plugins = [\<lparr>plugin_name = ''bare'', commands = None\<rparr>, tickets_plugin],
      check = (\<lambda>d. None), register = (\<lambda>c. None), user_id = JStr ''4242''\<rparr>"

definition duplicate_error :: js_error where
  "duplicate_error = Thrown (JStr ''A command with this name is already registered'')"

definition conflicting_client :: client where
  "conflicting_client = accepting_client\<lparr>register := (\<lambda>c. Some duplicate_error)\<rparr>"

definition strict_client :: client where
  "strict_client = accepting_client\<lparr>check := (\<lambda>d. Some (Thrown (JStr ''invalid'')))\<rparr>"

definition close_descriptor :: jsval where
  "close_descriptor = JObj [(''name'', JStr ''close''), (''description'', JStr ''Close a ticket'')]"

definition help_descriptor :: jsval where
  "help_descriptor =
     JObj [(''name'', JStr ''help''), (''description'', JStr ''List commands''),
           (''internal'', JBool True)]"

definition example_interaction :: interaction where
  "example_interaction =
     \<lparr>interaction_id = JStr ''77'', token = JStr ''tok'', channel_id = JStr ''9''\<rparr>"

definition example_utils :: utils_discord where
  "example_utils =
     \<lparr>flags = (\<lambda>secret. if truthy secret then JNum 64 else JUndefined),
      createMessage = (\<lambda>cl ch content. Inr (JObj [(''embeds'', JArr [content])]))\<rparr>"

text \<open>The instances the constructor builds from the two descriptors.\<close>

definition close_command :: command where
  "close_command =
     \<lparr>name = JStr ''close'', description = JStr ''Close a ticket'', staff_only = JUndefined,
      permissions = JUndefined, options = JUndefined, internal = JUndefined,
      plugin = Assigned (Some tickets_plugin)\<rparr>"

definition help_command :: command where
  "help_command =
     \<lparr>name = JStr ''help'', description = JStr ''List commands'', staff_only = JUndefined,
      permissions = JUndefined, options = JUndefined, internal = JBool True,
      plugin = Unset\<rparr>"

text \<open>The two confirmation lines.\<close>

definition close_line :: string where
  "close_line = ''Loaded '' @ [CHR 0x22] @ ''close'' @ [CHR 0x22] @ '' command''"

definition help_line :: string where
  "help_line = ''Loaded internal '' @ [CHR 0x22] @ ''help'' @ [CHR 0x22] @ '' command''"

text \<open>
  A descriptor whose name does not convert to a string: \<^verbatim>\<open>{name: {toString: 'x'}}\<close>,
  and the instance built from it.
\<close>

definition unprintable_descriptor :: jsval where
  "unprintable_descriptor = JObj [(''name'', JObj [(''toString'', JStr ''x'')])]"

definition unprintable_command :: command where
  "unprintable_command =
     \<lparr>name = JObj [(''toString'', JStr ''x'')], description = JUndefined,
      staff_only = JUndefined, permissions = JUndefined, options = JUndefined,
      internal = JUndefined, plugin = Assigned None\<rparr>"

definition conversion_error :: js_error where
  "conversion_error = TypeError ''Cannot convert object to primitive value''"

section \<open>Facts about the constructor\<close>

lemma typeof_object: "typeof v = ''object'' \<longleftrightarrow> object_shaped v \<or> v = JNull"
  by (cases v) simp_all

lemma read_descriptor_object_shaped:
  assumes "object_shaped data"
  shows "\<exists>c. read_descriptor data = Inr c"
  using assms by (cases data) (simp_all add: read_descriptor_def bind_err_def)

lemma read_descriptor_Inr:
  assumes "read_descriptor data = Inr c"
  shows "plugin c = Unset \<and> get_prop data ''name'' = Inr (name c)
           \<and> get_prop data ''internal'' = Inr (internal c)"
  using assms by (cases data) (auto simp add: read_descriptor_def bind_err_def)

lemma read_descriptor_null: "\<exists>msg. read_descriptor JNull = Inl (TypeError msg)"
  by (simp add: read_descriptor_def bind_err_def)


text \<open>
  Past the guard and the six reads, the constructor is a straight line: its log and its
  result in each of the four ways it can end.
\<close>

lemma constructor_runs:
  assumes "typeof data = ''object''" and "read_descriptor data = Inr c0"
  shows "Command_constructor cl data tr =
     (let c = fst (resolve_plugin cl c0 []);
          pf = tr @ (if truthy (internal c0) then [] else [Plugins_find (name c0)])
      in case check cl data of
           Some e \<Rightarrow> (pf @ [Manager_check data], Inl e)
         | None \<Rightarrow>
            (case register cl c of
               Some e \<Rightarrow> (pf @ [Manager_check data, Manager_register c, Log_error e], Inr c)
             | None \<Rightarrow>
                (case loaded_message c of
                   Inl e \<Rightarrow> (pf @ [Manager_check data, Manager_register c,
                               Api_post (commands_route cl) (JObj [(''data'', data)])], Inl e)
                 | Inr line \<Rightarrow> (pf @ [Manager_check data, Manager_register c,
                               Api_post (commands_route cl) (JObj [(''data'', data)]),
                               Log_commands line], Inr c))))"
  using assms
  by (simp add: Command_constructor_def resolve_plugin_def Let_def
      split: option.splits sum.splits)

lemma constructor_cases:
  assumes run: "Command_constructor cl data [] = (tr, r)"
  obtains
    (rejected) msg where "tr = []" and "r = Inl (TypeError msg)"
  | (invalid) c0 e where "read_descriptor data = Inr c0" and "check cl data = Some e"
      and "tr = (if truthy (internal c0) then [] else [Plugins_find (name c0)]) @ [Manager_check data]"
      and "r = Inl e"
  | (conflict) c0 c e where "read_descriptor data = Inr c0" and "c = fst (resolve_plugin cl c0 [])"
      and "check cl data = None" and "register cl c = Some e"
      and "tr = (if truthy (internal c0) then [] else [Plugins_find (name c0)])
                  @ [Manager_check data, Manager_register c, Log_error e]"
      and "r = Inr c"
  | (unprintable) c0 c e where "read_descriptor data = Inr c0"
      and "c = fst (resolve_plugin cl c0 [])"
      and "check cl data = None" and "register cl c = None" and "loaded_message c = Inl e"
      and "tr = (if truthy (internal c0) then [] else [Plugins_find (name c0)])
                  @ [Manager_check data, Manager_register c,
                     Api_post (commands_route cl) (JObj [(''data'', data)])]"
      and "r = Inl e"
  | (loaded) c0 c line where "read_descriptor data = Inr c0"
      and "c = fst (resolve_plugin cl c0 [])"
      and "check cl data = None" and "register cl c = None" and "loaded_message c = Inr line"
      and "tr = (if truthy (internal c0) then [] else [Plugins_find (name c0)])
                  @ [Manager_check data, Manager_register c,
                     Api_post (commands_route cl) (JObj [(''data'', data)]),
                     Log_commands line]"
      and "r = Inr c"
proof (cases "object_shaped data")
  case False
  have "\<exists>msg. Command_constructor cl data [] = ([], Inl (TypeError msg))"
  proof (cases "data = JNull")
    case True
    with read_descriptor_null show ?thesis
      by (auto simp add: Command_constructor_def)
  next
    case notnull: False
    with False have "typeof data \<noteq> ''object''" by (simp add: typeof_object)
    then show ?thesis by (simp add: Command_constructor_def)
  qed
  with run rejected show ?thesis by auto
next
  case True
  then obtain c0 where c0: "read_descriptor data = Inr c0"
    using read_descriptor_object_shaped by blast
  from True have ty: "typeof data = ''object''" by (simp add: typeof_object)
  note eq = constructor_runs [OF ty c0, of cl "[]"]
  show ?thesis
  proof (cases "check cl data")
    case (Some e)
    with eq run c0 invalid show ?thesis by (auto simp add: Let_def)
  next
    case None
    show ?thesis
    proof (cases "register cl (fst (resolve_plugin cl c0 []))")
      case (Some e)
      with None eq run c0 conflict show ?thesis by (auto simp add: Let_def)
    next
      case none: None
      show ?thesis
      proof (cases "loaded_message (fst (resolve_plugin cl c0 []))")
        case (Inl e)
        with none None eq run c0 unprintable show ?thesis by (auto simp add: Let_def)
      next
        case (Inr line)
        with none None eq run c0 loaded show ?thesis by (auto simp add: Let_def)
      qed
    qed
  qed
qed

text \<open>
  An object-shaped descriptor is never rejected by the guard or by the reads.
\<close>

lemma object_shaped_not_rejected:
  assumes "object_shaped data" and "Command_constructor cl data [] = (tr, r)"
  shows "tr \<noteq> []"
proof -
  from assms(1) obtain c0 where c0: "read_descriptor data = Inr c0"
    using read_descriptor_object_shaped by blast
  from assms(1) have "typeof data = ''object''" by (simp add: typeof_object)
  from constructor_runs [OF this c0, of cl "[]"] assms(2)
  show ?thesis by (auto simp add: Let_def split: option.splits sum.splits if_splits)
qed

lemmas example_defs =
  Command_constructor_def read_descriptor_def bind_err_def resolve_plugin_def
  plugin_includes_def commands_route_def loaded_message_def accepting_client_def
  conflicting_client_def strict_client_def tickets_plugin_def close_descriptor_def
  help_descriptor_def close_command_def help_command_def close_line_def help_line_def
  unprintable_descriptor_def unprintable_command_def conversion_error_def

lemma close_conflicts:
  "Command_constructor conflicting_client close_descriptor [] =
     ([Plugins_find (JStr ''close''), Manager_check close_descriptor,
       Manager_register close_command, Log_error duplicate_error], Inr close_command)"
  by (simp add: example_defs)

lemma help_conflicts:
  "Command_constructor conflicting_client help_descriptor [] =
     ([Manager_check help_descriptor, Manager_register help_command,
       Log_error duplicate_error], Inr help_command)"
  by (simp add: example_defs)

lemma close_loads:
  "Command_constructor accepting_client close_descriptor [] =
     ([Plugins_find (JStr ''close''), Manager_check close_descriptor,
       Manager_register close_command,
       Api_post [JStr ''applications'', JStr ''4242'', JStr ''commands'']
         (JObj [(''data'', close_descriptor)]),
       Log_commands close_line], Inr close_command)"
  by (simp add: example_defs)

lemma help_loads:
  "Command_constructor accepting_client help_descriptor [] =
     ([Manager_check help_descriptor, Manager_register help_command,
       Api_post [JStr ''applications'', JStr ''4242'', JStr ''commands'']
         (JObj [(''data'', help_descriptor)]),
       Log_commands help_line], Inr help_command)"
  by (simp add: example_defs)

lemma close_is_invalid:
  "Command_constructor strict_client close_descriptor [] =
     ([Plugins_find (JStr ''close''), Manager_check close_descriptor],
      Inl (Thrown (JStr ''invalid'')))"
  by (simp add: example_defs)

lemma unprintable_throws:
  "Command_constructor accepting_client unprintable_descriptor [] =
     ([Plugins_find (JObj [(''toString'', JStr ''x'')]), Manager_check unprintable_descriptor,
       Manager_register unprintable_command,
       Api_post [JStr ''applications'', JStr ''4242'', JStr ''commands'']
         (JObj [(''data'', unprintable_descriptor)])], Inl conversion_error)"
  by (simp add: example_defs)

section \<open>The claims\<close>

text \<open>
  C1. For every descriptor that is not an object (\<^verbatim>\<open>null\<close>, a string, a number, a
  boolean, \<^verbatim>\<open>undefined\<close>), the constructor throws a \<^verbatim>\<open>TypeError\<close> and leaves the log
  as it found it: no call to the registry and no network call comes before the throw.
  For \<^verbatim>\<open>null\<close> the guard of line 50 lets the value through (\<^verbatim>\<open>typeof null\<close> is
  \<^verbatim>\<open>'object'\<close>) and the \<^verbatim>\<open>TypeError\<close> is the one of reading \<^verbatim>\<open>data.name\<close> at line 58.
\<close>

theorem constructor_rejects_non_object:
  "\<not> object_shaped data \<Longrightarrow>
     \<exists>msg. Command_constructor cl data tr = (tr, Inl (TypeError msg))"
proof (cases "data = JNull")
  case True
  obtain msg where "read_descriptor JNull = Inl (TypeError msg)"
    using read_descriptor_null by blast
  with True show ?thesis by (simp add: Command_constructor_def)
next
  case False
  assume "\<not> object_shaped data"
  with False have "typeof data \<noteq> ''object''" by (simp add: typeof_object)
  then show ?thesis by (simp add: Command_constructor_def)
qed

theorem constructor_rejects_non_object_witness:
  "\<not> object_shaped JNull \<and> \<not> object_shaped (JStr ''x'') \<and> \<not> object_shaped (JNum 42)
   \<and> (\<exists>msg. Command_constructor accepting_client JNull [] = ([], Inl (TypeError msg)))
   \<and> (\<exists>msg. Command_constructor accepting_client (JStr ''x'') [] = ([], Inl (TypeError msg)))
   \<and> (\<exists>msg. Command_constructor accepting_client (JNum 42) [] = ([], Inl (TypeError msg)))"
  using constructor_rejects_non_object [of JNull accepting_client "[]"]
    constructor_rejects_non_object [of "JStr ''x''" accepting_client "[]"]
    constructor_rejects_non_object [of "JNum 42" accepting_client "[]"]
  by simp

text \<open>
  C2. When \<^verbatim>\<open>manager.register\<close> is called during a construction and throws \<open>e\<close>, the
  construction completes with the instance (nothing is propagated), and \<^verbatim>\<open>log.error\<close>
  is called exactly once in the whole construction, with \<open>e\<close>.
\<close>

theorem register_failure_is_logged_once:
  assumes "Command_constructor cl data [] = (tr, r)"
    and "Manager_register c \<in> set tr"
    and "register cl c = Some e"
  shows "r = Inr c \<and> filter is_log_error tr = [Log_error e]"
  using assms(1)
proof (cases rule: constructor_cases)
  case (rejected msg)
  with assms(2) show ?thesis by simp
next
  case (invalid c0 e')
  with assms(2) show ?thesis by (simp split: if_splits)
next
  case (conflict c0 c' e')
  with assms(2) have "c' = c" by (simp split: if_splits)
  with conflict assms(3) show ?thesis by simp
next
  case (unprintable c0 c' e')
  with assms(2) have "c' = c" by (simp split: if_splits)
  with unprintable assms(3) show ?thesis by simp
next
  case (loaded c0 c' line)
  with assms(2) have "c' = c" by (simp split: if_splits)
  with loaded assms(3) show ?thesis by simp
qed

theorem register_failure_is_logged_once_witness:
  "Command_constructor conflicting_client close_descriptor [] =
     ([Plugins_find (JStr ''close''), Manager_check close_descriptor,
       Manager_register close_command, Log_error duplicate_error], Inr close_command)
   \<and> register conflicting_client close_command = Some duplicate_error
   \<and> filter is_log_error
        [Plugins_find (JStr ''close''), Manager_check close_descriptor,
         Manager_register close_command, Log_error duplicate_error]
      = [Log_error duplicate_error]"
  using register_failure_is_logged_once
    [OF close_conflicts, of close_command duplicate_error] close_conflicts
  by (simp add: conflicting_client_def)

text \<open>
  C9. When \<^verbatim>\<open>manager.register\<close> throws \<open>e\<close>, the constructor returns at once: the log
  ends with the call to \<^verbatim>\<open>register\<close> followed by the one call to \<^verbatim>\<open>log.error\<close>, and
  the construction made no network call and wrote no confirmation line.
\<close>

theorem register_failure_returns_early:
  assumes "Command_constructor cl data [] = (tr, r)"
    and "Manager_register c \<in> set tr"
    and "register cl c = Some e"
  shows "(\<exists>before. tr = before @ [Manager_register c, Log_error e]
            \<and> filter is_register before = [])
         \<and> filter is_network tr = [] \<and> filter is_log_commands tr = []"
  using assms(1)
proof (cases rule: constructor_cases)
  case (rejected msg)
  with assms(2) show ?thesis by simp
next
  case (invalid c0 e')
  with assms(2) show ?thesis by (simp split: if_splits)
next
  case (conflict c0 c' e')
  with assms(2) have same: "c' = c" by (simp split: if_splits)
  with conflict assms(3) have e: "e' = e" by simp
  let ?pf = "if truthy (internal c0) then [] else [Plugins_find (name c0)]"
  have "tr = (?pf @ [Manager_check data]) @ [Manager_register c, Log_error e]"
    using conflict same e by simp
  moreover have "filter is_register (?pf @ [Manager_check data]) = []" by simp
  moreover have "filter is_network tr = []" "filter is_log_commands tr = []"
    using conflict by simp_all
  ultimately show ?thesis by blast
next
  case (unprintable c0 c' e')
  with assms(2) have "c' = c" by (simp split: if_splits)
  with unprintable assms(3) show ?thesis by simp
next
  case (loaded c0 c' line)
  with assms(2) have "c' = c" by (simp split: if_splits)
  with loaded assms(3) show ?thesis by simp
qed

theorem register_failure_returns_early_witness:
  "Command_constructor conflicting_client help_descriptor [] =
     ([Manager_check help_descriptor, Manager_register help_command,
       Log_error duplicate_error], Inr help_command)
   \<and> register conflicting_client help_command = Some duplicate_error
   \<and> filter is_network
        [Manager_check help_descriptor, Manager_register help_command,
         Log_error duplicate_error] = []
   \<and> filter is_log_commands
        [Manager_check help_descriptor, Manager_register help_command,
         Log_error duplicate_error] = []"
  using register_failure_returns_early
    [OF help_conflicts, of help_command duplicate_error] help_conflicts
  by (simp add: conflicting_client_def)

text \<open>
  C3. For every object-shaped descriptor, the steps the constructor takes come in one
  order, each at most once and none before an earlier one (the log is strictly
  increasing in \<open>step\<close>): the plugin lookup, which is in the log exactly when
  \<^verbatim>\<open>internal\<close> is falsy; then \<^verbatim>\<open>manager.check\<close>, which is always called and whose
  error is the error of the construction, with nothing after it; then
  \<^verbatim>\<open>manager.register\<close>; then, when that returns, the publication of the descriptor at
  the commands route; then the confirmation line, which is the last call once its text
  is built. When the text cannot be built (the name does not convert to a string) the
  publication is the last call and the error of the conversion is thrown.
\<close>

theorem constructor_steps_in_order:
  assumes "object_shaped data"
    and "Command_constructor cl data [] = (tr, r)"
  shows "sorted_wrt (\<lambda>a b. step a < step b) tr
    \<and> (\<exists>c0. read_descriptor data = Inr c0
          \<and> (Plugins_find (name c0) \<in> set tr \<longleftrightarrow> \<not> truthy (internal c0)))
    \<and> Manager_check data \<in> set tr
    \<and> (\<forall>e. check cl data = Some e \<longrightarrow> r = Inl e \<and> last tr = Manager_check data)
    \<and> (check cl data = None \<longrightarrow>
          (\<exists>c. Manager_register c \<in> set tr
             \<and> (register cl c = None \<longrightarrow>
                   Api_post (commands_route cl) (JObj [(''data'', data)]) \<in> set tr
                   \<and> (\<forall>line. loaded_message c = Inr line \<longrightarrow>
                          r = Inr c \<and> last tr = Log_commands line)
                   \<and> (\<forall>e. loaded_message c = Inl e \<longrightarrow>
                          r = Inl e
                          \<and> last tr = Api_post (commands_route cl) (JObj [(''data'', data)])))))"
  using assms(2)
proof (cases rule: constructor_cases)
  case (rejected msg)
  with object_shaped_not_rejected [OF assms] show ?thesis by simp
next
  case (invalid c0 e')
  then show ?thesis by simp
next
  case (conflict c0 c e')
  then show ?thesis by simp
next
  case (unprintable c0 c e')
  then show ?thesis by simp
next
  case (loaded c0 c line)
  then show ?thesis by simp
qed

theorem constructor_steps_in_order_witness:
  "object_shaped close_descriptor
   \<and> Command_constructor accepting_client close_descriptor [] =
     ([Plugins_find (JStr ''close''), Manager_check close_descriptor,
       Manager_register close_command,
       Api_post [JStr ''applications'', JStr ''4242'', JStr ''commands'']
         (JObj [(''data'', close_descriptor)]),
       Log_commands close_line], Inr close_command)
   \<and> check accepting_client close_descriptor = None
   \<and> register accepting_client close_command = None
   \<and> loaded_message close_command = Inr close_line
   \<and> sorted_wrt (\<lambda>a b. step a < step b)
       [Plugins_find (JStr ''close''), Manager_check close_descriptor,
        Manager_register close_command,
        Api_post [JStr ''applications'', JStr ''4242'', JStr ''commands'']
          (JObj [(''data'', close_descriptor)]),
        Log_commands close_line]
   \<and> check strict_client close_descriptor = Some (Thrown (JStr ''invalid''))
   \<and> Command_constructor strict_client close_descriptor [] =
     ([Plugins_find (JStr ''close''), Manager_check close_descriptor],
      Inl (Thrown (JStr ''invalid'')))
   \<and> object_shaped unprintable_descriptor
   \<and> loaded_message unprintable_command = Inl conversion_error
   \<and> Command_constructor accepting_client unprintable_descriptor [] =
     ([Plugins_find (JObj [(''toString'', JStr ''x'')]), Manager_check unprintable_descriptor,
       Manager_register unprintable_command,
       Api_post [JStr ''applications'', JStr ''4242'', JStr ''commands'']
         (JObj [(''data'', unprintable_descriptor)])], Inl conversion_error)"
proof -
  have obj: "object_shaped close_descriptor" by (simp add: close_descriptor_def)
  have obj': "object_shaped unprintable_descriptor" by (simp add: unprintable_descriptor_def)
  have line: "loaded_message close_command = Inr close_line"
    by (simp add: loaded_message_def close_command_def close_line_def bind_err_def)
  have noline: "loaded_message unprintable_command = Inl conversion_error"
    by (simp add: loaded_message_def unprintable_command_def conversion_error_def bind_err_def)
  from constructor_steps_in_order [OF obj close_loads]
    constructor_steps_in_order [OF obj close_is_invalid]
    constructor_steps_in_order [OF obj' unprintable_throws]
    obj obj' line noline close_loads close_is_invalid unprintable_throws
  show ?thesis by (simp add: accepting_client_def strict_client_def)
qed




text \<open>
  C8. For every descriptor the constructor accepts, \<^verbatim>\<open>this.plugin\<close> is assigned only
  when \<^verbatim>\<open>internal\<close> is falsy (\<^verbatim>\<open>false\<close>, or missing), and what it is assigned is the
  result of searching \<^verbatim>\<open>client.plugins.plugins\<close> for the first plugin whose command
  list includes the name of the descriptor: a plugin found is in the index and lists
  the name, and nothing is found only when no plugin of the index lists it. When
  \<^verbatim>\<open>internal\<close> is truthy (\<^verbatim>\<open>true\<close>) the property is never assigned.
\<close>

theorem plugin_resolved_only_when_not_internal:
  assumes "Command_constructor cl data [] = (tr, Inr c)"
  shows "get_prop data ''internal'' = Inr (internal c)
    \<and> get_prop data ''name'' = Inr (name c)
    \<and> (truthy (internal c) \<longrightarrow> plugin c = Unset)
    \<and> (\<not> truthy (internal c) \<longrightarrow>
          plugin c = Assigned (find (\<lambda>p. plugin_includes p (name c)) (plugins cl)))
    \<and> (\<forall>p. plugin c = Assigned (Some p) \<longrightarrow>
          p \<in> set (plugins cl)
          \<and> (\<exists>cs s. commands p = Some cs \<and> name c = JStr s \<and> s \<in> set cs))
    \<and> (plugin c = Assigned None \<longrightarrow>
          (\<forall>p \<in> set (plugins cl). \<not> plugin_includes p (name c)))"
proof -
  have built: "\<exists>c0. read_descriptor data = Inr c0 \<and> c = fst (resolve_plugin cl c0 [])"
    using assms by (cases rule: constructor_cases) auto
  then obtain c0 where c0: "read_descriptor data = Inr c0"
    and c: "c = fst (resolve_plugin cl c0 [])" by blast
  note fields = read_descriptor_Inr [OF c0]
  have same: "internal c = internal c0" "name c = name c0"
    using c by (simp_all add: resolve_plugin_def)
  have unset: "truthy (internal c) \<longrightarrow> plugin c = Unset"
    using c fields by (simp add: resolve_plugin_def)
  have assigned: "\<not> truthy (internal c) \<longrightarrow>
      plugin c = Assigned (find (\<lambda>p. plugin_includes p (name c)) (plugins cl))"
    using c by (simp add: resolve_plugin_def)
  have found: "p \<in> set (plugins cl)
      \<and> (\<exists>cs s. commands p = Some cs \<and> name c = JStr s \<and> s \<in> set cs)"
    if "plugin c = Assigned (Some p)" for p
  proof -
    from that unset assigned
    have "find (\<lambda>p. plugin_includes p (name c)) (plugins cl) = Some p"
      by (cases "truthy (internal c)") simp_all
    then have "p \<in> set (plugins cl)" and "plugin_includes p (name c)"
      by (auto simp add: find_Some_iff)
    then show ?thesis
      by (auto simp add: plugin_includes_def split: option.splits jsval.splits)
  qed
  have missing: "\<forall>p \<in> set (plugins cl). \<not> plugin_includes p (name c)"
    if "plugin c = Assigned None"
  proof -
    from that unset assigned
    have "find (\<lambda>p. plugin_includes p (name c)) (plugins cl) = None"
      by (cases "truthy (internal c)") simp_all
    then show ?thesis by (simp add: find_None_iff)
  qed
  from fields same unset assigned found missing show ?thesis by simp
qed

theorem plugin_resolved_only_when_not_internal_witness:
  "(\<exists>tr. Command_constructor accepting_client close_descriptor [] = (tr, Inr close_command))
   \<and> \<not> truthy (internal close_command)
   \<and> plugin close_command = Assigned (Some tickets_plugin)
   \<and> tickets_plugin \<in> set (plugins accepting_client)
   \<and> (\<exists>tr. Command_constructor accepting_client help_descriptor [] = (tr, Inr help_command))
   \<and> truthy (internal help_command)
   \<and> plugin help_command = Unset"
  using plugin_resolved_only_when_not_internal [OF close_loads]
    plugin_resolved_only_when_not_internal [OF help_loads] close_loads help_loads
  by (simp add: close_command_def help_command_def accepting_client_def)

section \<open>The claims about the response methods\<close>

text \<open>
  C5. For every interaction and every \<^verbatim>\<open>secret\<close> (so for \<^verbatim>\<open>false\<close>), \<^verbatim>\<open>sendResponse\<close>
  with a content whose \<^verbatim>\<open>typeof\<close> is not \<^verbatim>\<open>'object'\<close> posts one payload at the
  callback route, with type 4, the content as its \<^verbatim>\<open>content\<close> and no \<^verbatim>\<open>data\<close>.
  With a content whose \<^verbatim>\<open>typeof\<close> is \<^verbatim>\<open>'object'\<close>, for every \<^verbatim>\<open>secret\<close> (so for
  \<^verbatim>\<open>true\<close>), once the formatter \<^verbatim>\<open>createMessage\<close> has answered \<open>m\<close> for the channel
  and the content, it posts one payload with type 4, \<open>m\<close> as its \<^verbatim>\<open>data\<close>, no
  \<^verbatim>\<open>content\<close>, and \<^verbatim>\<open>flags(secret)\<close> as its \<^verbatim>\<open>flags\<close>.
\<close>

theorem sendResponse_payload:
  "(typeof content \<noteq> ''object'' \<longrightarrow>
      (\<exists>p. sendResponse u cl i content secret [] =
              ([Api_post (callback_route i) (JObj [(''data'', p)])], Inr JUndefined)
         \<and> field p ''type'' = Some (JNum 4)
         \<and> field p ''flags'' = Some (flags u secret)
         \<and> field p ''content'' = Some content
         \<and> field p ''data'' = None))
   \<and> (typeof content = ''object'' \<and> createMessage u cl (channel_id i) content = Inr m \<longrightarrow>
      (\<exists>p. sendResponse u cl i content secret [] =
              ([Api_post (callback_route i) (JObj [(''data'', p)])], Inr JUndefined)
         \<and> field p ''type'' = Some (JNum 4)
         \<and> field p ''flags'' = Some (flags u secret)
         \<and> field p ''data'' = Some m
         \<and> field p ''content'' = None))"
  by (simp add: sendResponse_def)

theorem sendResponse_payload_witness:
  "typeof (JStr ''hello'') \<noteq> ''object''
   \<and> sendResponse example_utils accepting_client example_interaction (JStr ''hello'')
        (JBool False) [] =
      ([Api_post (callback_route example_interaction)
          (JObj [(''data'', JObj [(''type'', JNum 4), (''flags'', JUndefined),
                                  (''content'', JStr ''hello'')])])], Inr JUndefined)
   \<and> typeof (JObj [(''title'', JStr ''Hi'')]) = ''object''
   \<and> createMessage example_utils accepting_client (channel_id example_interaction)
        (JObj [(''title'', JStr ''Hi'')])
      = Inr (JObj [(''embeds'', JArr [JObj [(''title'', JStr ''Hi'')]])])
   \<and> sendResponse example_utils accepting_client example_interaction
        (JObj [(''title'', JStr ''Hi'')]) (JBool True) [] =
      ([Api_post (callback_route example_interaction)
          (JObj [(''data'', JObj [(''type'', JNum 4), (''flags'', JNum 64),
              (''data'', JObj [(''embeds'', JArr [JObj [(''title'', JStr ''Hi'')]])])])])],
       Inr JUndefined)"
  using sendResponse_payload
      [where content = "JStr ''hello''" and u = example_utils and cl = accepting_client
         and i = example_interaction and secret = "JBool False"]
    sendResponse_payload
      [where content = "JObj [(''title'', JStr ''Hi'')]" and u = example_utils
         and cl = accepting_client and i = example_interaction and secret = "JBool True"
         and m = "JObj [(''embeds'', JArr [JObj [(''title'', JStr ''Hi'')]])]"]
  by (simp add: sendResponse_def example_utils_def)

text \<open>
  C6. \<^verbatim>\<open>editResponse\<close> puts the content on the options it hands to \<^verbatim>\<open>patch\<close>, as
  \<^verbatim>\<open>embeds\<close> or as \<^verbatim>\<open>content\<close>, and gives these options no \<^verbatim>\<open>data\<close>: the request
  carries no body, so neither field, where the claim has the body carry one of them.
  \<^verbatim>\<open>sendResponse\<close>, beside it, hands \<^verbatim>\<open>post\<close> its payload under \<^verbatim>\<open>data\<close>. Evaluated
  at the content \<^verbatim>\<open>'text'\<close> and at an object.
\<close>

theorem editResponse_patch_carries_no_body:
  "editResponse example_interaction (JStr ''text'') [] =
     ([Api_patch (messages_route example_interaction) (JObj [(''content'', JStr ''text'')])],
      Inr JUndefined)
   \<and> request_body (JObj [(''content'', JStr ''text'')]) = None
   \<and> editResponse example_interaction (JObj [(''title'', JStr ''Hi'')]) [] =
     ([Api_patch (messages_route example_interaction)
         (JObj [(''embeds'', JObj [(''title'', JStr ''Hi'')])])], Inr JUndefined)
   \<and> request_body (JObj [(''embeds'', JObj [(''title'', JStr ''Hi'')])]) = None
   \<and> sendResponse example_utils accepting_client example_interaction (JStr ''text'')
        (JBool False) [] =
     ([Api_post (callback_route example_interaction)
         (JObj [(''data'', JObj [(''type'', JNum 4), (''flags'', JUndefined),
                                 (''content'', JStr ''text'')])])], Inr JUndefined)
   \<and> request_body
        (JObj [(''data'', JObj [(''type'', JNum 4), (''flags'', JUndefined),
                                (''content'', JStr ''text'')])])
      = Some (JObj [(''type'', JNum 4), (''flags'', JUndefined), (''content'', JStr ''text'')])"
  by (simp add: editResponse_def sendResponse_def request_body_def example_utils_def)

text \<open>
  C7. For every interaction and every boolean \<^verbatim>\<open>secret\<close>, \<^verbatim>\<open>deferResponse\<close> posts
  exactly one payload, at the callback route, with type 5 and \<^verbatim>\<open>flags(secret)\<close> as its
  \<^verbatim>\<open>flags\<close>. With the helper \<^verbatim>\<open>flags\<close> as the spec describes it, whatever the position
  of the ephemeral bit, these flags carry the ephemeral flag exactly when \<^verbatim>\<open>secret\<close>
  is true.
\<close>

theorem deferResponse_type_5_ephemeral:
  "\<exists>p. deferResponse (u\<lparr>flags := spec_flags k\<rparr>) i (JBool secret) [] =
          ([Api_post (callback_route i) (JObj [(''data'', p)])], Inr JUndefined)
     \<and> field p ''type'' = Some (JNum 5)
     \<and> (\<exists>f. field p ''flags'' = Some f \<and> (has_ephemeral k f \<longleftrightarrow> secret))"
  by (simp add: deferResponse_def spec_flags_def bit_exp_iff)

theorem deferResponse_type_5_ephemeral_witness:
  "deferResponse (example_utils\<lparr>flags := spec_flags 6\<rparr>) example_interaction (JBool True) [] =
     ([Api_post (callback_route example_interaction)
         (JObj [(''data'', JObj [(''type'', JNum 5), (''flags'', JNum 64)])])], Inr JUndefined)
   \<and> has_ephemeral 6 (JNum 64)
   \<and> deferResponse (example_utils\<lparr>flags := spec_flags 6\<rparr>) example_interaction (JBool False) [] =
     ([Api_post (callback_route example_interaction)
         (JObj [(''data'', JObj [(''type'', JNum 5), (''flags'', JNum 0)])])], Inr JUndefined)
   \<and> \<not> has_ephemeral 6 (JNum 0)"
  using deferResponse_type_5_ephemeral
      [where u = example_utils and k = 6 and i = example_interaction and secret = True]
    deferResponse_type_5_ephemeral
      [where u = example_utils and k = 6 and i = example_interaction and secret = False]
  by (simp add: deferResponse_def spec_flags_def)



end
